theory Spec2Isabelle
  imports Complex_Main
begin

section \<open>Data model\<close>

text \<open>
  The bot of \<^verbatim>\<open>polymarket_stop_loss_hybrid_specificPosition.py\<close>. Python floats are
  rendered as \<^typ>\<open>real\<close>: sizes, prices and percentages are computed exactly, so the
  theorems below speak about the arithmetic the code writes down, not about IEEE
  rounding. Python strings are \<^typ>\<open>string\<close>, the set of selected token ids is a
  \<^typ>\<open>string set\<close>.
\<close>

text \<open>The dataclass \<^verbatim>\<open>StopLossConfig\<close>.\<close>

record stop_loss_config =
  stop_loss_percentage :: real
  stop_loss_price :: "real option"
  check_interval :: int
  min_position_value :: real
  dry_run :: bool
  max_slippage :: real
  selected_positions :: "string set"
  selection_mode :: string

text \<open>
  \<^verbatim>\<open>StopLossConfig()\<close>: the field defaults, with \<^verbatim>\<open>__post_init__\<close> turning the
  \<^verbatim>\<open>None\<close> default of \<^verbatim>\<open>selected_positions\<close> into the empty set.
\<close>

definition StopLossConfig :: stop_loss_config where
  "StopLossConfig =
     \<lparr>stop_loss_percentage = 20.0, stop_loss_price = None, check_interval = 60,
      min_position_value = 0.1, dry_run = True, max_slippage = 0.05,
      selected_positions = {}, selection_mode = ''none''\<rparr>"

text \<open>
  The dataclass \<^verbatim>\<open>Position\<close> (without \<^verbatim>\<open>raw_data\<close>, which no operation below
  reads). The field \<^verbatim>\<open>size\<close> is called \<open>pos_size\<close> here.
\<close>

record position =
  token_id :: string
  market_name :: string
  outcome :: string
  pos_size :: real
  current_value :: real
  current_price :: real
  initial_value :: real
  pnl :: real
  pnl_percentage :: real

text \<open>
  Records written by \<^verbatim>\<open>self.logger\<close>. The Python formats them into strings; the
  model keeps the values that the format string interpolates.
\<close>

datatype trigger_reason = Loss real | Price real real

datatype log_event =
    SelectedButEmpty
  | SelectedMissing int
  | ModeNone
  | StopLossTriggered position "trigger_reason list"
  | DryRunWouldSell position
  | FailedToExecuteStopLoss
  | NoPositionsSelectedMonitorAll

section \<open>Selection filter\<close>

text \<open>
  \<^verbatim>\<open>PolymarketStopLossBot.filter_monitored_positions\<close>: the monitored positions and
  the log records written. \<^verbatim>\<open>len\<close> of the set is \<^const>\<open>card\<close>; the sets the bot
  builds are finite.
\<close>

definition filter_monitored_positions ::
  "stop_loss_config \<Rightarrow> position list \<Rightarrow> position list \<times> log_event list" where
  "filter_monitored_positions cfg positions =
     (if selection_mode cfg = ''all'' then (positions, [])
      else if selection_mode cfg = ''selected'' then
        (if selected_positions cfg = {} then ([], [SelectedButEmpty])
         else
           (let monitored = filter (\<lambda>pos. token_id pos \<in> selected_positions cfg) positions;
                missing_count = int (card (selected_positions cfg)) - int (length monitored)
            in (monitored, if missing_count > 0 then [SelectedMissing missing_count] else [])))
      else if selection_mode cfg = ''none'' then ([], [ModeNone])
      else ([], []))"

section \<open>Trigger evaluation\<close>

text \<open>
  The body of the loop of \<^verbatim>\<open>check_stop_loss_triggers\<close>, one definition per local
  variable.
\<close>

definition percentage_triggered :: "stop_loss_config \<Rightarrow> position \<Rightarrow> bool" where
  "percentage_triggered cfg pos = (pnl_percentage pos \<le> - stop_loss_percentage cfg)"

definition price_triggered :: "stop_loss_config \<Rightarrow> position \<Rightarrow> bool" where
  "price_triggered cfg pos =
     (case stop_loss_price cfg of
        None \<Rightarrow> False
      | Some sp \<Rightarrow> current_price pos \<le> sp)"

definition trigger_reasons :: "stop_loss_config \<Rightarrow> position \<Rightarrow> trigger_reason list" where
  "trigger_reasons cfg pos =
     (if percentage_triggered cfg pos then [Loss (pnl_percentage pos)] else []) @
     (case stop_loss_price cfg of
        None \<Rightarrow> []
      | Some sp \<Rightarrow> if price_triggered cfg pos then [Price (current_price pos) sp] else [])"

text \<open>
  The \<^verbatim>\<open>for position in monitored_positions\<close> loop: the triggered positions in
  order, and one warning per triggered position carrying its reasons.
\<close>

fun check_monitored ::
  "stop_loss_config \<Rightarrow> position list \<Rightarrow> position list \<times> log_event list" where
  "check_monitored cfg [] = ([], [])"
| "check_monitored cfg (pos # rest) =
     (let (triggered_positions, warnings) = check_monitored cfg rest
      in if percentage_triggered cfg pos \<or> price_triggered cfg pos
         then (pos # triggered_positions,
               StopLossTriggered pos (trigger_reasons cfg pos) # warnings)
         else (triggered_positions, warnings))"

definition check_stop_loss_triggers ::
  "stop_loss_config \<Rightarrow> position list \<Rightarrow> position list \<times> log_event list" where
  "check_stop_loss_triggers cfg positions =
     (let (monitored_positions, filter_log) = filter_monitored_positions cfg positions;
          (triggered_positions, warnings) = check_monitored cfg monitored_positions
      in (triggered_positions, filter_log @ warnings))"

section \<open>The trading client\<close>

text \<open>
  The CLOB client is external. Each of its calls either raises or returns, and what it
  answers is a parameter of the model. \<^verbatim>\<open>post_order\<close> may answer differently each
  time: it is given the orders posted so far (with their answers), which is all the
  executor can have told the venue before.
\<close>

datatype 'a call = Raises | Returns 'a

datatype side = SELL | BUY

text \<open>\<^verbatim>\<open>OrderArgs(price=, size=, side=, token_id=)\<close>.\<close>

datatype order_args =
  OrderArgs (price: real) (order_size: real) (order_side: side) (order_token_id: string)

datatype signed_order = SignedOrder order_args string

text \<open>
  The dictionary \<^verbatim>\<open>post_order\<close> returns, read with \<^verbatim>\<open>result.get('success', False)\<close>,
  \<^verbatim>\<open>result.get('orderID', 'N/A')\<close> and \<^verbatim>\<open>result.get('errorMsg', 'Unknown error')\<close>.
\<close>

record post_result =
  post_success :: bool
  orderID :: string
  errorMsg :: string

type_synonym venue_log = "(order_args \<times> post_result call) list"

text \<open>
  \<^verbatim>\<open>get_order_book\<close> answers with the list \<^verbatim>\<open>orderbook.get('bids', [])\<close>; a level is
  the value of \<^verbatim>\<open>float(level['price'])\<close>, or \<open>None\<close> where that expression raises.
\<close>

record clob_client =
  get_order_book :: "string \<Rightarrow> real option list call"
  create_order :: "order_args \<Rightarrow> signed_order call"
  post_order :: "venue_log \<Rightarrow> signed_order \<Rightarrow> post_result call"

section \<open>Chunked sell executor\<close>

text \<open>
  \<^verbatim>\<open>PolymarketTradingClient.execute_market_sell\<close>. The local variables of the method
  are the fields of \<open>exec_state\<close>; \<open>posted\<close> is the effect on the venue: every
  \<^verbatim>\<open>post_order\<close> call made so far, with its answer. Console output, the two-second
  sleep and the \<^verbatim>\<open>get_order\<close> status poll (whose exceptions are swallowed and whose
  answer is only printed) change none of these and are left out.
\<close>

record exec_state =
  sell_price :: real
  remaining_size :: real
  total_filled :: real
  orders_placed :: "post_result list"
  posted :: venue_log

text \<open>Lines 260 to 279: the price the first order is offered at.\<close>

definition price_discovery :: "clob_client \<Rightarrow> position \<Rightarrow> real" where
  "price_discovery cl p =
     (case get_order_book cl (token_id p) of
        Raises \<Rightarrow> max 0.001 (current_price p * 0.90)
      | Returns bids \<Rightarrow>
          (case bids of
             [] \<Rightarrow> max 0.001 (current_price p * 0.95)
           | level # _ \<Rightarrow>
               (case level of
                  None \<Rightarrow> max 0.001 (current_price p * 0.90)
                | Some best_bid \<Rightarrow> max 0.001 best_bid)))"

text \<open>Lines 282 to 285.\<close>

definition chunk_size :: "position \<Rightarrow> real" where
  "chunk_size p = min (pos_size p) 50.0"

definition initial_state :: "clob_client \<Rightarrow> position \<Rightarrow> exec_state" where
  "initial_state cl p =
     \<lparr>sell_price = price_discovery cl p, remaining_size = pos_size p, total_filled = 0,
      orders_placed = [], posted = []\<rparr>"

text \<open>
  The exception \<^verbatim>\<open>Exception("Failed to execute stop loss order: ...")\<close> that the outer
  handler raises.
\<close>

datatype exec_error = FailedToExecuteOrder

text \<open>
  Lines 288 to 340: one pass through the body of the \<^verbatim>\<open>while\<close> loop.
  \<^verbatim>\<open>create_order\<close> stands outside the inner \<^verbatim>\<open>try\<close>, so its exception leaves the
  method; an exception of \<^verbatim>\<open>post_order\<close> and a refusal are handled inside the loop.
\<close>

definition chunk_attempt ::
  "clob_client \<Rightarrow> position \<Rightarrow> exec_state \<Rightarrow> (exec_error \<times> venue_log) + exec_state" where
  "chunk_attempt cl p s =
     (let current_chunk = min (remaining_size s) (chunk_size p);
          order = OrderArgs (sell_price s) current_chunk SELL (token_id p)
      in case create_order cl order of
           Raises \<Rightarrow> Inl (FailedToExecuteOrder, posted s)
         | Returns signed \<Rightarrow>
             (case post_order cl (posted s) signed of
                Raises \<Rightarrow>
                  Inr (s\<lparr>sell_price := max 0.001 (sell_price s * 0.90),
                         posted := posted s @ [(order, Raises)]\<rparr>)
              | Returns result \<Rightarrow>
                  if post_success result
                  then Inr (s\<lparr>orders_placed := orders_placed s @ [result],
                              total_filled := total_filled s + current_chunk,
                              remaining_size := remaining_size s - current_chunk,
                              posted := posted s @ [(order, Returns result)]\<rparr>)
                  else Inr (s\<lparr>sell_price := max 0.001 (sell_price s * 0.95),
                              posted := posted s @ [(order, Returns result)]\<rparr>)))"

text \<open>
  Line 287: \<^verbatim>\<open>while remaining_size > 0.1\<close>. Nothing in the source bounds the number
  of passes, so the loop is a partial function: \<open>None\<close> is the loop that never ends.
\<close>

partial_function (option) chunk_loop ::
  "clob_client \<Rightarrow> position \<Rightarrow> exec_state \<Rightarrow> ((exec_error \<times> venue_log) + exec_state) option" where
  "chunk_loop cl p s =
     (if remaining_size s > 0.1
      then (case chunk_attempt cl p s of
              Inl e \<Rightarrow> Some (Inl e)
            | Inr s' \<Rightarrow> chunk_loop cl p s')
      else Some (Inr s))"

text \<open>
  The state after \<open>n\<close> more passes, where the loop makes that many: \<open>None\<close> when it
  has ended or raised before.
\<close>

fun state_after :: "clob_client \<Rightarrow> position \<Rightarrow> nat \<Rightarrow> exec_state \<Rightarrow> exec_state option" where
  "state_after cl p 0 s = Some s"
| "state_after cl p (Suc n) s =
     (if remaining_size s > 0.1
      then (case chunk_attempt cl p s of
              Inl e \<Rightarrow> None
            | Inr s' \<Rightarrow> state_after cl p n s')
      else None)"

text \<open>
  Lines 343 to 366, the final low-price order. Here \<^verbatim>\<open>create_order\<close> is inside the
  \<^verbatim>\<open>try\<close>: any exception is printed and the method goes on to the summary. The
  variable \<^verbatim>\<open>remaining_size\<close> is not written.
\<close>

definition final_sweep :: "clob_client \<Rightarrow> position \<Rightarrow> exec_state \<Rightarrow> exec_state" where
  "final_sweep cl p s =
     (if remaining_size s > 0.1
      then
        (let final_price = max 0.001 (current_price p * 0.50);
             order = OrderArgs final_price (remaining_size s) SELL (token_id p)
         in case create_order cl order of
              Raises \<Rightarrow> s
            | Returns signed \<Rightarrow>
                (case post_order cl (posted s) signed of
                   Raises \<Rightarrow> s\<lparr>posted := posted s @ [(order, Raises)]\<rparr>
                 | Returns result \<Rightarrow>
                     if post_success result
                     then s\<lparr>orders_placed := orders_placed s @ [result],
                            total_filled := total_filled s + remaining_size s,
                            posted := posted s @ [(order, Returns result)]\<rparr>
                     else s\<lparr>posted := posted s @ [(order, Returns result)]\<rparr>))
      else s)"

text \<open>
  Lines 369 to 388: the dictionary returned. A key that a branch does not write is
  \<open>None\<close>. The keys \<^verbatim>\<open>orders_placed\<close> and \<^verbatim>\<open>remaining_size\<close> are the fields
  \<open>orders_placed_count\<close> and \<open>remaining_size_out\<close>.
\<close>

record execution_result =
  success :: bool
  orders_placed_count :: "nat option"
  total_size_ordered :: "real option"
  remaining_size_out :: "real option"
  order_details :: "post_result list option"
  error :: "string option"
  attempted_size :: "real option"

definition summary :: "position \<Rightarrow> exec_state \<Rightarrow> execution_result" where
  "summary p s =
     (if orders_placed s \<noteq> []
      then \<lparr>success = True,
            orders_placed_count = Some (length (orders_placed s)),
            total_size_ordered = Some (total_filled s),
            remaining_size_out = Some (pos_size p - total_filled s),
            order_details = Some (orders_placed s),
            error = None, attempted_size = None\<rparr>
      else \<lparr>success = False,
            orders_placed_count = None, total_size_ordered = None,
            remaining_size_out = None, order_details = None,
            error = Some ''No orders could be placed'',
            attempted_size = Some (pos_size p)\<rparr>)"

text \<open>
  The whole method: what it returns or raises, and the orders it has posted. \<open>None\<close>
  is the call that never returns.
\<close>

definition execute_market_sell ::
  "clob_client \<Rightarrow> position \<Rightarrow> ((exec_error + execution_result) \<times> venue_log) option" where
  "execute_market_sell cl p =
     (case chunk_loop cl p (initial_state cl p) of
        None \<Rightarrow> None
      | Some (Inl (e, vlog)) \<Rightarrow> Some (Inl e, vlog)
      | Some (Inr s) \<Rightarrow>
          (let s' = final_sweep cl p s in Some (Inr (summary p s'), posted s')))"

text \<open>The sizes of the orders in a log that the venue accepted.\<close>

fun accepted :: "order_args \<times> post_result call \<Rightarrow> bool" where
  "accepted (order, Raises) = False"
| "accepted (order, Returns result) = post_success result"

definition accepted_size :: "venue_log \<Rightarrow> real" where
  "accepted_size vlog = sum_list (map (\<lambda>entry. order_size (fst entry)) (filter accepted vlog))"

section \<open>The bot\<close>

text \<open>
  The state of \<^verbatim>\<open>PolymarketStopLossBot\<close> that the operations below read and write.
  An entry of \<^verbatim>\<open>stop_loss_log\<close> holds the time stamp, the position (the Python
  copies six of its fields) and the dictionary \<^verbatim>\<open>execute_market_sell\<close> returned.
\<close>

record stop_loss_entry =
  timestamp :: string
  entry_position :: position
  order_result :: execution_result

record bot =
  config :: stop_loss_config
  trading_client :: "clob_client option"
  stop_loss_log :: "stop_loss_entry list"

text \<open>
  \<^verbatim>\<open>__init__\<close>: in mode \<^verbatim>\<open>"selected"\<close> the selection is read again from the file
  (\<open>saved\<close> is what \<^verbatim>\<open>load_selected_positions\<close> returns, the empty set when the file
  is missing or unreadable); the trading client \<open>cl\<close> is built only when
  \<^verbatim>\<open>dry_run\<close> is off.
\<close>

definition PolymarketStopLossBot :: "stop_loss_config \<Rightarrow> string set \<Rightarrow> clob_client \<Rightarrow> bot" where
  "PolymarketStopLossBot cfg saved cl =
     \<lparr>config = (if selection_mode cfg = ''selected''
                then cfg\<lparr>selected_positions := saved\<rparr> else cfg),
      trading_client = (if dry_run cfg then None else Some cl),
      stop_loss_log = []\<rparr>"

text \<open>
  \<^verbatim>\<open>execute_stop_loss\<close>: the value returned, the bot afterwards, the log records
  written and the orders posted to the venue. \<open>now\<close> is the clock reading used for
  the time stamp. Every exception is caught and turned into \<^verbatim>\<open>False\<close>.
\<close>

definition execute_stop_loss ::
  "bot \<Rightarrow> string \<Rightarrow> position \<Rightarrow> (bool \<times> bot \<times> log_event list \<times> venue_log) option" where
  "execute_stop_loss b now p =
     (if dry_run (config b) then Some (True, b, [DryRunWouldSell p], [])
      else
        (case trading_client b of
           None \<Rightarrow> Some (False, b, [FailedToExecuteStopLoss], [])
         | Some cl \<Rightarrow>
             (case execute_market_sell cl p of
                None \<Rightarrow> None
              | Some (Inl e, vlog) \<Rightarrow> Some (False, b, [FailedToExecuteStopLoss], vlog)
              | Some (Inr result, vlog) \<Rightarrow>
                  Some (True,
                        b\<lparr>stop_loss_log := stop_loss_log b @
                             [\<lparr>timestamp = now, entry_position = p, order_result = result\<rparr>]\<rparr>,
                        [], vlog))))"

text \<open>
  Lines 866 to 868 of \<^verbatim>\<open>start_monitoring\<close>: the configuration that the monitoring
  loop then runs with, and the warning written.
\<close>

definition start_monitoring_config :: "stop_loss_config \<Rightarrow> stop_loss_config \<times> log_event list" where
  "start_monitoring_config cfg =
     (if selection_mode cfg = ''selected'' \<and> selected_positions cfg = {}
      then (cfg\<lparr>selection_mode := ''all''\<rparr>, [NoPositionsSelectedMonitorAll])
      else (cfg, []))"

text \<open>
  Lines 834 and 835 of \<^verbatim>\<open>select_positions_for_monitoring\<close>: the configuration after
  the interactive selection returned \<open>new_selections\<close>.
\<close>

definition select_positions_for_monitoring :: "stop_loss_config \<Rightarrow> string set \<Rightarrow> stop_loss_config" where
  "select_positions_for_monitoring cfg new_selections =
     cfg\<lparr>selected_positions := new_selections,
         selection_mode := (if new_selections \<noteq> {} then ''selected'' else ''all'')\<rparr>"

section \<open>Concrete venues and positions\<close>

text \<open>
  Inputs at which the theorems below are instantiated: a venue whose book lists 0.38
  first and which accepts every order, a venue with an empty book which refuses every
  order, and positions of size 100, 30 and 0.05.
\<close>

definition accepted_reply :: post_result where
  "accepted_reply = \<lparr>post_success = True, orderID = ''order'', errorMsg = ''''\<rparr>"

definition rejected_reply :: post_result where
  "rejected_reply = \<lparr>post_success = False, orderID = '''', errorMsg = ''rejected''\<rparr>"

definition accepting_client :: clob_client where
  "accepting_client =
     \<lparr>get_order_book = (\<lambda>token. Returns [Some 0.38, Some 0.37]),
      create_order = (\<lambda>order. Returns (SignedOrder order ''signature'')),
      post_order = (\<lambda>history signed.
         Returns accepted_reply)\<rparr>"

definition rejecting_client :: clob_client where
  "rejecting_client =
     \<lparr>get_order_book = (\<lambda>token. Returns []),
      create_order = (\<lambda>order. Returns (SignedOrder order ''signature'')),
      post_order = (\<lambda>history signed.
         Returns rejected_reply)\<rparr>"

definition position_A :: position where
  "position_A =
     \<lparr>token_id = ''token-A'', market_name = ''Market A'', outcome = ''Yes'', pos_size = 100,
      current_value = 40, current_price = 0.40, initial_value = 50, pnl = - 10,
      pnl_percentage = - 20\<rparr>"

definition position_B :: position where
  "position_B =
     \<lparr>token_id = ''token-B'', market_name = ''Market B'', outcome = ''No'', pos_size = 30,
      current_value = 12, current_price = 0.40, initial_value = 15, pnl = - 3,
      pnl_percentage = - 20\<rparr>"

definition position_C :: position where
  "position_C =
     \<lparr>token_id = ''token-C'', market_name = ''Market C'', outcome = ''Yes'', pos_size = 30,
      current_value = 0.03, current_price = 0.001, initial_value = 3, pnl = - 2.97,
      pnl_percentage = - 99\<rparr>"

definition dust_position :: position where
  "dust_position =
     \<lparr>token_id = ''token-D'', market_name = ''Market D'', outcome = ''Yes'', pos_size = 0.05,
      current_value = 0.02, current_price = 0.40, initial_value = 0.02, pnl = 0,
      pnl_percentage = 0\<rparr>"

definition live_bot :: bot where
  "live_bot =
     PolymarketStopLossBot (StopLossConfig\<lparr>dry_run := False, selection_mode := ''all''\<rparr>) {}
       accepting_client"

definition dry_bot :: bot where
  "dry_bot = PolymarketStopLossBot (StopLossConfig\<lparr>selection_mode := ''all''\<rparr>) {} accepting_client"

text \<open>
  A venue that lists its bids in ascending order, so that the best bid, 0.38, is the
  last level, and accepts every order; and a client on which building an order
  succeeds only for a full chunk of 50, with the position of size 80 that meets it.
\<close>

definition ascending_client :: clob_client where
  "ascending_client =
     \<lparr>get_order_book = (\<lambda>token. Returns [Some 0.30, Some 0.38]),
      create_order = (\<lambda>order. Returns (SignedOrder order ''signature'')),
      post_order = (\<lambda>history signed. Returns accepted_reply)\<rparr>"

definition flaky_client :: clob_client where
  "flaky_client =
     \<lparr>get_order_book = (\<lambda>token. Returns [Some 0.38]),
      create_order = (\<lambda>order. if order_size order = 50
                               then Returns (SignedOrder order ''signature'') else Raises),
      post_order = (\<lambda>history signed. Returns accepted_reply)\<rparr>"

definition position_E :: position where
  "position_E =
     \<lparr>token_id = ''token-E'', market_name = ''Market E'', outcome = ''Yes'', pos_size = 80,
      current_value = 32, current_price = 0.40, initial_value = 40, pnl = - 8,
      pnl_percentage = - 20\<rparr>"

definition flaky_bot :: bot where
  "flaky_bot =
     PolymarketStopLossBot (StopLossConfig\<lparr>dry_run := False, selection_mode := ''all''\<rparr>) {}
       flaky_client"


declare chunk_loop.simps [code]

section \<open>Selection filter: theorems\<close>

text \<open>
  C8. With \<^verbatim>\<open>selection_mode == "none"\<close> the filter returns the empty list for every
  input list, whatever its length and contents and whatever the rest of the
  configuration says; hence \<^verbatim>\<open>check_stop_loss_triggers\<close>, which evaluates only what
  the filter returns, evaluates no position, reports none as triggered and logs no
  trigger.
\<close>

theorem filter_mode_none_empty:
  "fst (filter_monitored_positions (cfg\<lparr>selection_mode := ''none''\<rparr>) positions) = []
   \<and> check_stop_loss_triggers (cfg\<lparr>selection_mode := ''none''\<rparr>) positions = ([], [ModeNone])"
  by (simp add: filter_monitored_positions_def check_stop_loss_triggers_def)

section \<open>The executor: lemmas\<close>

lemma accepted_size_append:
  "accepted_size (vlog @ [entry]) =
     accepted_size vlog + (if accepted entry then order_size (fst entry) else 0)"
  by (simp add: accepted_size_def)

lemma chunk_attempt_conserves:
  assumes "chunk_attempt cl p s = Inr s'"
    and "total_filled s + remaining_size s = pos_size p"
    and "total_filled s = accepted_size (posted s)"
    and "orders_placed s = [] \<longleftrightarrow> filter accepted (posted s) = []"
    and "length (orders_placed s) = length (filter accepted (posted s))"
  shows "total_filled s' + remaining_size s' = pos_size p
       \<and> total_filled s' = accepted_size (posted s')
       \<and> (orders_placed s' = [] \<longleftrightarrow> filter accepted (posted s') = [])
       \<and> length (orders_placed s') = length (filter accepted (posted s'))"
  using assms
  by (auto simp: chunk_attempt_def Let_def accepted_size_append split: call.splits if_splits)


lemma chunk_loop_exit_sum:
  assumes "chunk_loop cl p s = Some y"
  shows "case y of Inl e \<Rightarrow> True | Inr s' \<Rightarrow> remaining_size s' \<le> 0.1"
  using assms
proof (rule chunk_loop.raw_induct
    [where P = "\<lambda>cl p s y. case y of Inl e \<Rightarrow> True | Inr s' \<Rightarrow> remaining_size s' \<le> 0.1", rotated])
  fix loop cl p s y
  assume IH: "\<And>cl p s y. loop cl p s = Some y \<Longrightarrow>
      (case y of Inl e \<Rightarrow> True | Inr s' \<Rightarrow> remaining_size s' \<le> 0.1)"
    and eq: "(if 0.1 < remaining_size s
              then case chunk_attempt cl p s of Inl e \<Rightarrow> Some (Inl e) | Inr s' \<Rightarrow> loop cl p s'
              else Some (Inr s)) = Some y"
  show "case y of Inl e \<Rightarrow> True | Inr s' \<Rightarrow> remaining_size s' \<le> 0.1"
  proof (cases "0.1 < remaining_size s")
    case False
    with eq show ?thesis by auto
  next
    case True
    show ?thesis
    proof (cases "chunk_attempt cl p s")
      case (Inl e)
      with True eq show ?thesis by auto
    next
      case (Inr s1)
      with True eq have "loop cl p s1 = Some y" by simp
      then show ?thesis by (rule IH)
    qed
  qed
qed

lemma chunk_loop_exit:
  "chunk_loop cl p s = Some (Inr s') \<Longrightarrow> remaining_size s' \<le> 0.1"
  using chunk_loop_exit_sum[of cl p s "Inr s'"] by simp

lemma chunk_loop_passes_sum:
  assumes "chunk_loop cl p s = Some y"
  shows "case y of Inl e \<Rightarrow> True | Inr s' \<Rightarrow> \<exists>n. state_after cl p n s = Some s'"
  using assms
proof (rule chunk_loop.raw_induct
    [where P = "\<lambda>cl p s y. case y of Inl e \<Rightarrow> True
                  | Inr s' \<Rightarrow> \<exists>n. state_after cl p n s = Some s'", rotated])
  fix loop cl p s y
  assume IH: "\<And>cl p s y. loop cl p s = Some y \<Longrightarrow>
      (case y of Inl e \<Rightarrow> True | Inr s' \<Rightarrow> \<exists>n. state_after cl p n s = Some s')"
    and eq: "(if 0.1 < remaining_size s
              then case chunk_attempt cl p s of Inl e \<Rightarrow> Some (Inl e) | Inr s' \<Rightarrow> loop cl p s'
              else Some (Inr s)) = Some y"
  show "case y of Inl e \<Rightarrow> True | Inr s' \<Rightarrow> \<exists>n. state_after cl p n s = Some s'"
  proof (cases y)
    case (Inl e)
    then show ?thesis by simp
  next
    case (Inr s')
    show ?thesis
    proof (cases "0.1 < remaining_size s")
      case False
      with eq Inr have "s' = s" by simp
      then have "state_after cl p 0 s = Some s'" by simp
      then have "\<exists>n. state_after cl p n s = Some s'" ..
      then show ?thesis using Inr by simp
    next
      case True
      with eq Inr obtain s1 where a: "chunk_attempt cl p s = Inr s1"
        and l: "loop cl p s1 = Some (Inr s')"
        by (auto split: sum.splits)
      from IH[OF l] obtain n where "state_after cl p n s1 = Some s'" by auto
      with True a have "state_after cl p (Suc n) s = Some s'" by simp
      then have "\<exists>n. state_after cl p n s = Some s'" ..
      then show ?thesis using Inr by simp
    qed
  qed
qed

lemma chunk_loop_passes:
  "chunk_loop cl p s = Some (Inr s') \<Longrightarrow> \<exists>n. state_after cl p n s = Some s'"
  using chunk_loop_passes_sum[of cl p s "Inr s'"] by simp

lemma state_after_conserves:
  "state_after cl p n s = Some s' \<Longrightarrow>
   total_filled s + remaining_size s = pos_size p \<Longrightarrow>
   total_filled s = accepted_size (posted s) \<Longrightarrow>
   (orders_placed s = [] \<longleftrightarrow> filter accepted (posted s) = []) \<Longrightarrow>
   length (orders_placed s) = length (filter accepted (posted s)) \<Longrightarrow>
   total_filled s' + remaining_size s' = pos_size p
       \<and> total_filled s' = accepted_size (posted s')
       \<and> (orders_placed s' = [] \<longleftrightarrow> filter accepted (posted s') = [])
       \<and> length (orders_placed s') = length (filter accepted (posted s'))"
proof (induction n arbitrary: s)
  case 0
  then show ?case by simp
next
  case (Suc n)
  from Suc.prems(1) obtain s1 where r: "remaining_size s > 0.1"
    and a: "chunk_attempt cl p s = Inr s1" and n: "state_after cl p n s1 = Some s'"
    by (auto split: if_splits sum.splits)
  from chunk_attempt_conserves[OF a Suc.prems(2-5)] Suc.IH[OF n] show ?case by blast
qed

lemma rejected_attempt:
  assumes never: "\<forall>h so r. post_order cl h so = Returns r \<longrightarrow> \<not> post_success r"
    and creates: "\<forall>a. create_order cl a \<noteq> Raises"
  shows "\<exists>s'. chunk_attempt cl p s = Inr s' \<and> remaining_size s' = remaining_size s
            \<and> orders_placed s' = orders_placed s \<and> total_filled s' = total_filled s
            \<and> length (posted s') = Suc (length (posted s))"
proof -
  let ?order = "OrderArgs (sell_price s) (min (remaining_size s) (chunk_size p)) SELL (token_id p)"
  from creates obtain signed where c: "create_order cl ?order = Returns signed"
    by (cases "create_order cl ?order") auto
  show ?thesis
  proof (cases "post_order cl (posted s) signed")
    case Raises
    with c show ?thesis by (simp add: chunk_attempt_def Let_def)
  next
    case (Returns r)
    with never have "\<not> post_success r" by blast
    with c Returns show ?thesis by (simp add: chunk_attempt_def Let_def)
  qed
qed

lemma rejected_loop_diverges:
  assumes never: "\<forall>h so r. post_order cl h so = Returns r \<longrightarrow> \<not> post_success r"
    and creates: "\<forall>a. create_order cl a \<noteq> Raises"
    and dust: "0.1 < remaining_size s"
  shows "chunk_loop cl p s = None"
proof (rule ccontr)
  assume "chunk_loop cl p s \<noteq> None"
  then obtain y where y: "chunk_loop cl p s = Some y" by auto
  have "(\<forall>h so r. post_order cl h so = Returns r \<longrightarrow> \<not> post_success r) \<longrightarrow>
        (\<forall>a. create_order cl a \<noteq> Raises) \<longrightarrow> 0.1 < remaining_size s \<longrightarrow> False"
    using y
  proof (rule chunk_loop.raw_induct
      [where P = "\<lambda>cl p s y. (\<forall>h so r. post_order cl h so = Returns r \<longrightarrow> \<not> post_success r) \<longrightarrow>
        (\<forall>a. create_order cl a \<noteq> Raises) \<longrightarrow> 0.1 < remaining_size s \<longrightarrow> False", rotated])
    fix loop cl p s y
    assume IH: "\<And>cl p s y. loop cl p s = Some y \<Longrightarrow>
        (\<forall>h so r. post_order cl h so = Returns r \<longrightarrow> \<not> post_success r) \<longrightarrow>
        (\<forall>a. create_order cl a \<noteq> Raises) \<longrightarrow> 0.1 < remaining_size s \<longrightarrow> False"
      and eq: "(if 0.1 < remaining_size s
              then case chunk_attempt cl p s of Inl e \<Rightarrow> Some (Inl e) | Inr s' \<Rightarrow> loop cl p s'
              else Some (Inr s)) = Some y"
    show "(\<forall>h so r. post_order cl h so = Returns r \<longrightarrow> \<not> post_success r) \<longrightarrow>
        (\<forall>a. create_order cl a \<noteq> Raises) \<longrightarrow> 0.1 < remaining_size s \<longrightarrow> False"
    proof (intro impI)
      assume n: "\<forall>h so r. post_order cl h so = Returns r \<longrightarrow> \<not> post_success r"
        and c: "\<forall>a. create_order cl a \<noteq> Raises" and d: "0.1 < remaining_size s"
      from rejected_attempt[OF n c, of p s] obtain s1 where
        a: "chunk_attempt cl p s = Inr s1" and r: "remaining_size s1 = remaining_size s"
        by blast
      with eq d have "loop cl p s1 = Some y" by simp
      from IH[OF this] n c d r show False by simp
    qed
  qed
  with assms show False by blast
qed

lemma rejected_loop_passes:
  assumes never: "\<forall>h so r. post_order cl h so = Returns r \<longrightarrow> \<not> post_success r"
    and creates: "\<forall>a. create_order cl a \<noteq> Raises"
  shows "0.1 < remaining_size s \<Longrightarrow>
     \<exists>s'. state_after cl p n s = Some s' \<and> remaining_size s' = remaining_size s
        \<and> orders_placed s' = orders_placed s \<and> length (posted s') = length (posted s) + n"
proof (induction n arbitrary: s)
  case 0
  then show ?case by simp
next
  case (Suc n)
  from rejected_attempt[OF never creates, of p s] obtain s1 where
    a: "chunk_attempt cl p s = Inr s1" and r: "remaining_size s1 = remaining_size s"
    and o: "orders_placed s1 = orders_placed s"
    and l: "length (posted s1) = Suc (length (posted s))"
    by blast
  from Suc.prems r have "0.1 < remaining_size s1" by simp
  from Suc.IH[OF this] obtain s' where "state_after cl p n s1 = Some s'"
    "remaining_size s' = remaining_size s1" "orders_placed s' = orders_placed s1"
    "length (posted s') = length (posted s1) + n" by blast
  with a r o l Suc.prems show ?case by simp
qed

lemma final_sweep_after_loop:
  "chunk_loop cl p s = Some (Inr s') \<Longrightarrow> final_sweep cl p s' = s'"
  using chunk_loop_exit[of cl p s s'] by (simp add: final_sweep_def)

lemma execute_market_sell_returns:
  assumes "execute_market_sell cl p = Some (Inr r, vlog)"
  shows "\<exists>s. chunk_loop cl p (initial_state cl p) = Some (Inr s) \<and> r = summary p s \<and> vlog = posted s"
proof -
  from assms obtain s where l: "chunk_loop cl p (initial_state cl p) = Some (Inr s)"
    and r: "r = summary p (final_sweep cl p s)" and v: "vlog = posted (final_sweep cl p s)"
    by (auto simp: execute_market_sell_def Let_def split: option.splits sum.splits prod.splits)
  with final_sweep_after_loop[OF l] show ?thesis by simp
qed

lemma initial_state_conserves:
  "total_filled (initial_state cl p) + remaining_size (initial_state cl p) = pos_size p
   \<and> total_filled (initial_state cl p) = accepted_size (posted (initial_state cl p))
   \<and> (orders_placed (initial_state cl p) = [] \<longleftrightarrow> filter accepted (posted (initial_state cl p)) = [])
   \<and> length (orders_placed (initial_state cl p)) = length (filter accepted (posted (initial_state cl p)))"
  by (simp add: initial_state_def accepted_size_def)

lemma state_after_initial:
  assumes "state_after cl p n (initial_state cl p) = Some s"
  shows "total_filled s + remaining_size s = pos_size p
       \<and> total_filled s = accepted_size (posted s)
       \<and> (orders_placed s = [] \<longleftrightarrow> filter accepted (posted s) = [])
       \<and> length (orders_placed s) = length (filter accepted (posted s))"
  using state_after_conserves[OF assms] initial_state_conserves[of cl p] by blast

lemma execute_market_sell_state:
  assumes "execute_market_sell cl p = Some (Inr r, vlog)"
  shows "\<exists>s. r = summary p s \<and> vlog = posted s \<and> remaining_size s \<le> 0.1
       \<and> total_filled s + remaining_size s = pos_size p
       \<and> total_filled s = accepted_size (posted s)
       \<and> (orders_placed s = [] \<longleftrightarrow> filter accepted (posted s) = [])
       \<and> length (orders_placed s) = length (filter accepted (posted s))"
proof -
  from execute_market_sell_returns[OF assms] obtain s where
    l: "chunk_loop cl p (initial_state cl p) = Some (Inr s)" and r: "r = summary p s"
    and v: "vlog = posted s" by blast
  from chunk_loop_passes[OF l] obtain n where "state_after cl p n (initial_state cl p) = Some s"
    by blast
  from state_after_initial[OF this] chunk_loop_exit[OF l] r v show ?thesis by blast
qed

lemma accepting_run:
  "execute_market_sell accepting_client position_A =
     Some (Inr \<lparr>success = True, orders_placed_count = Some 2, total_size_ordered = Some 100,
                remaining_size_out = Some 0,
                order_details = Some [accepted_reply,
                        accepted_reply],
                error = None, attempted_size = None\<rparr>,
           [(OrderArgs 0.38 50 SELL ''token-A'', Returns accepted_reply),
            (OrderArgs 0.38 50 SELL ''token-A'', Returns accepted_reply)])"
  by (simp add: execute_market_sell_def accepting_client_def accepted_reply_def position_A_def
      initial_state_def price_discovery_def chunk_loop.simps chunk_attempt_def chunk_size_def final_sweep_def summary_def)

section \<open>Size conservation\<close>

text \<open>
  C3. At every pass of the chunk loop the size ordered so far plus the size still to
  order is the position's size, and the size ordered is the sum of the sizes of the
  orders the venue accepted. When the method returns a success dictionary, its
  \<^verbatim>\<open>total_size_ordered\<close> is that sum and its \<^verbatim>\<open>remaining_size\<close> is the position's
  size minus it; the failure dictionary, returned when no order was accepted, carries
  no \<^verbatim>\<open>remaining_size\<close> key and reports the whole size as \<^verbatim>\<open>attempted_size\<close>.
\<close>

theorem executor_conserves_size:
  "(state_after cl p n (initial_state cl p) = Some s \<longrightarrow>
      total_filled s + remaining_size s = pos_size p \<and>
      total_filled s = accepted_size (posted s))
   \<and> (execute_market_sell cl p = Some (Inr r, vlog) \<longrightarrow>
        (if success r
         then total_size_ordered r = Some (accepted_size vlog) \<and>
              remaining_size_out r = Some (pos_size p - accepted_size vlog)
         else accepted_size vlog = 0 \<and> attempted_size r = Some (pos_size p)))"
proof (intro conjI impI)
  assume "state_after cl p n (initial_state cl p) = Some s"
  from state_after_initial[OF this]
  show "total_filled s + remaining_size s = pos_size p" "total_filled s = accepted_size (posted s)"
    by simp_all
next
  assume "execute_market_sell cl p = Some (Inr r, vlog)"
  from execute_market_sell_state[OF this] obtain s where
    "r = summary p s" "vlog = posted s" "total_filled s = accepted_size (posted s)"
    "orders_placed s = [] \<longleftrightarrow> filter accepted (posted s) = []" by blast
  then show "if success r
         then total_size_ordered r = Some (accepted_size vlog) \<and>
              remaining_size_out r = Some (pos_size p - accepted_size vlog)
         else accepted_size vlog = 0 \<and> attempted_size r = Some (pos_size p)"
    by (simp add: summary_def accepted_size_def)
qed

theorem executor_conserves_size_witness:
  "state_after accepting_client position_A 1 (initial_state accepting_client position_A) =
     Some \<lparr>sell_price = 0.38, remaining_size = 50, total_filled = 50,
       orders_placed = [accepted_reply],
       posted = [(OrderArgs 0.38 50 SELL ''token-A'',
                  Returns accepted_reply)]\<rparr>
   \<and> (50::real) + 50 = pos_size position_A
   \<and> (\<exists>r vlog. execute_market_sell accepting_client position_A = Some (Inr r, vlog)
        \<and> success r \<and> total_size_ordered r = Some (accepted_size vlog)
        \<and> remaining_size_out r = Some (pos_size position_A - accepted_size vlog)
        \<and> accepted_size vlog = 100)"
proof -
  let ?s = "\<lparr>sell_price = 0.38, remaining_size = 50, total_filled = 50,
       orders_placed = [accepted_reply],
       posted = [(OrderArgs 0.38 50 SELL ''token-A'',
                  Returns accepted_reply)]\<rparr>"
  have a: "state_after accepting_client position_A 1 (initial_state accepting_client position_A) = Some ?s"
    by (simp add: accepting_client_def accepted_reply_def position_A_def initial_state_def
      price_discovery_def chunk_attempt_def chunk_size_def)
  note run = accepting_run
  from executor_conserves_size[of accepting_client position_A 1 ?s _ _] a run
  show ?thesis
    by (simp add: position_A_def accepted_size_def accepted_reply_def)
qed

section \<open>Dry run\<close>

text \<open>
  C10. The configuration has a \<^verbatim>\<open>dry_run\<close> flag whose default is \<^verbatim>\<open>True\<close>, and a bot
  built from the default configuration has no trading client. While the flag is set,
  \<^verbatim>\<open>execute_stop_loss\<close> returns \<^verbatim>\<open>True\<close> at once for every position: the bot, and so
  its execution log, is unchanged, and no order is built or posted. Conversely, a call
  that posted an order or changed the execution log was made with the flag off.
\<close>

theorem dry_run_places_no_order:
  "dry_run StopLossConfig
   \<and> trading_client (PolymarketStopLossBot StopLossConfig saved cl) = None
   \<and> (dry_run (config b) \<longrightarrow>
        execute_stop_loss b now p = Some (True, b, [DryRunWouldSell p], []))
   \<and> (execute_stop_loss b now p = Some (ret, b', records, vlog) \<longrightarrow>
        vlog \<noteq> [] \<or> stop_loss_log b' \<noteq> stop_loss_log b \<longrightarrow> \<not> dry_run (config b))"
  by (auto simp: StopLossConfig_def PolymarketStopLossBot_def execute_stop_loss_def)

lemma live_run:
  "execute_stop_loss live_bot ''2025-01-01T00:00:00'' position_A =
     Some (True,
       live_bot\<lparr>stop_loss_log :=
         [\<lparr>timestamp = ''2025-01-01T00:00:00'', entry_position = position_A,
           order_result =
             \<lparr>success = True, orders_placed_count = Some 2, total_size_ordered = Some 100,
              remaining_size_out = Some 0,
              order_details = Some [accepted_reply, accepted_reply],
              error = None, attempted_size = None\<rparr>\<rparr>]\<rparr>,
       [],
       [(OrderArgs 0.38 50 SELL ''token-A'', Returns accepted_reply),
        (OrderArgs 0.38 50 SELL ''token-A'', Returns accepted_reply)])"
  by (simp add: live_bot_def PolymarketStopLossBot_def StopLossConfig_def execute_stop_loss_def
        accepting_run)

theorem dry_run_places_no_order_witness:
  "dry_run (config dry_bot)
   \<and> execute_stop_loss dry_bot ''2025-01-01T00:00:00'' position_A =
       Some (True, dry_bot, [DryRunWouldSell position_A], [])
   \<and> \<not> dry_run (config live_bot)"
proof -
  have d: "dry_run (config dry_bot)"
    by (simp add: dry_bot_def PolymarketStopLossBot_def StopLossConfig_def)
  from dry_run_places_no_order[of "{}" accepting_client dry_bot "''2025-01-01T00:00:00''" position_A
      True dry_bot "[]" "[]"] d
  have 1: "execute_stop_loss dry_bot ''2025-01-01T00:00:00'' position_A =
       Some (True, dry_bot, [DryRunWouldSell position_A], [])" by blast
  from dry_run_places_no_order[of "{}" accepting_client live_bot "''2025-01-01T00:00:00''" position_A]
    live_run
  have 2: "\<not> dry_run (config live_bot)" by blast
  from d 1 2 show ?thesis by blast
qed

section \<open>The result of a liquidation\<close>

lemma returned_success_iff_accepted:
  assumes "execute_market_sell cl p = Some (Inr r, vlog)"
  shows "(success r \<longleftrightarrow> (\<exists>entry \<in> set vlog. accepted entry))
       \<and> (if success r
          then orders_placed_count r = Some (length (filter accepted vlog))
          else error r = Some ''No orders could be placed'' \<and>
               attempted_size r = Some (pos_size p))"
proof -
  from execute_market_sell_state[OF assms] obtain s where
    r: "r = summary p s" and v: "vlog = posted s"
    and e: "orders_placed s = [] \<longleftrightarrow> filter accepted (posted s) = []"
    and l: "length (orders_placed s) = length (filter accepted (posted s))" by blast
  have "(\<exists>entry \<in> set vlog. accepted entry) \<longleftrightarrow> filter accepted vlog \<noteq> []"
    by (simp add: filter_empty_conv)
  with r v e l show ?thesis by (simp add: summary_def)
qed

lemma failure_only_for_dust:
  assumes "execute_market_sell cl p = Some (Inr r, vlog)" and "\<not> success r"
  shows "pos_size p \<le> 0.1 \<and> vlog = []"
proof -
  from execute_market_sell_state[OF assms(1)] obtain s where
    r: "r = summary p s" and v: "vlog = posted s" and d: "remaining_size s \<le> 0.1"
    and c: "total_filled s + remaining_size s = pos_size p"
    and t: "total_filled s = accepted_size (posted s)"
    and e: "orders_placed s = [] \<longleftrightarrow> filter accepted (posted s) = []" by blast
  from assms(2) r have "orders_placed s = []" by (simp add: summary_def split: if_splits)
  with e t have "total_filled s = 0" by (simp add: accepted_size_def)
  with c d have small: "pos_size p \<le> 0.1" by simp
  then have "chunk_loop cl p (initial_state cl p) = Some (Inr (initial_state cl p))"
    by (subst chunk_loop.simps) (simp add: initial_state_def)
  with execute_market_sell_returns[OF assms(1)] have "vlog = posted (initial_state cl p)"
    by auto
  with small show ?thesis by (simp add: initial_state_def)
qed

lemma dust_run:
  "execute_market_sell rejecting_client dust_position =
     Some (Inr \<lparr>success = False, orders_placed_count = None, total_size_ordered = None,
                remaining_size_out = None, order_details = None,
                error = Some ''No orders could be placed'', attempted_size = Some 0.05\<rparr>, [])"
  by (simp add: execute_market_sell_def rejecting_client_def dust_position_def initial_state_def
      price_discovery_def chunk_loop.simps final_sweep_def summary_def)

lemma never_accepting_never_returns:
  assumes "\<forall>h so r. post_order cl h so = Returns r \<longrightarrow> \<not> post_success r"
    and "\<forall>a. create_order cl a \<noteq> Raises" and "0.1 < pos_size p"
  shows "execute_market_sell cl p = None"
proof -
  from assms(3) have "0.1 < remaining_size (initial_state cl p)"
    by (simp add: initial_state_def)
  from rejected_loop_diverges[OF assms(1,2) this] show ?thesis
    by (simp add: execute_market_sell_def)
qed

lemma flaky_run:
  "execute_market_sell flaky_client position_E =
     Some (Inl FailedToExecuteOrder,
           [(OrderArgs 0.38 50 SELL ''token-E'', Returns accepted_reply)])"
  by (simp add: execute_market_sell_def flaky_client_def accepted_reply_def position_E_def
      initial_state_def price_discovery_def chunk_loop.simps chunk_attempt_def chunk_size_def)

text \<open>
  C7. The method reports \<^verbatim>\<open>success = False\<close> with the attempted size only for a
  position of at most 0.1, for which nothing is posted at all (lemma
  \<open>failure_only_for_dust\<close>); a dictionary that is returned does have \<^verbatim>\<open>success\<close>
  true exactly when an order was accepted (lemma \<open>returned_success_iff_accepted\<close>).
  But an attempt need not return one. Position A on the venue that refuses every
  order: no order is accepted, and the call never returns, so no failure is reported.
  Position E (size 80) on the client that builds only the first chunk: the order for
  50 is accepted, then \<^verbatim>\<open>create_order\<close>, which the loop calls outside its inner
  \<^verbatim>\<open>try\<close>, raises; the method raises, no dictionary is produced, and
  \<^verbatim>\<open>execute_stop_loss\<close> returns \<^verbatim>\<open>False\<close> and logs nothing although an order stands
  accepted at the venue.
\<close>

theorem attempt_without_result:
  "execute_market_sell rejecting_client position_A = None
   \<and> execute_market_sell flaky_client position_E =
       Some (Inl FailedToExecuteOrder,
             [(OrderArgs 0.38 50 SELL ''token-E'', Returns accepted_reply)])
   \<and> accepted (OrderArgs 0.38 50 SELL ''token-E'', Returns accepted_reply)
   \<and> execute_stop_loss flaky_bot ''2025-01-01T00:00:00'' position_E =
       Some (False, flaky_bot, [FailedToExecuteStopLoss],
             [(OrderArgs 0.38 50 SELL ''token-E'', Returns accepted_reply)])"
proof (intro conjI)
  show "execute_market_sell rejecting_client position_A = None"
    by (rule never_accepting_never_returns)
      (simp_all add: rejecting_client_def rejected_reply_def position_A_def)
  show "execute_market_sell flaky_client position_E =
       Some (Inl FailedToExecuteOrder,
             [(OrderArgs 0.38 50 SELL ''token-E'', Returns accepted_reply)])"
    by (rule flaky_run)
  show "accepted (OrderArgs 0.38 50 SELL ''token-E'', Returns accepted_reply)"
    by (simp add: accepted_reply_def)
  show "execute_stop_loss flaky_bot ''2025-01-01T00:00:00'' position_E =
       Some (False, flaky_bot, [FailedToExecuteStopLoss],
             [(OrderArgs 0.38 50 SELL ''token-E'', Returns accepted_reply)])"
    by (simp add: flaky_bot_def PolymarketStopLossBot_def StopLossConfig_def
        execute_stop_loss_def flaky_run)
qed

lemma check_monitored_filter:
  "check_monitored cfg ps =
     (filter (\<lambda>pos. percentage_triggered cfg pos \<or> price_triggered cfg pos) ps,
      map (\<lambda>pos. StopLossTriggered pos (trigger_reasons cfg pos))
        (filter (\<lambda>pos. percentage_triggered cfg pos \<or> price_triggered cfg pos) ps))"
  by (induction ps) (auto split: prod.splits)

lemma triggered_rule:
  "(percentage_triggered cfg pos \<or> price_triggered cfg pos) =
   (pnl_percentage pos \<le> - stop_loss_percentage cfg \<or>
    (\<exists>sp. stop_loss_price cfg = Some sp \<and> current_price pos \<le> sp))"
  by (auto simp: percentage_triggered_def price_triggered_def split: option.splits)

section \<open>Trigger evaluation: theorems\<close>

text \<open>
  C2. \<^verbatim>\<open>check_stop_loss_triggers\<close> reports exactly the monitored positions with
  P&L% \<open>\<le> -stop_loss_percentage\<close>, or with a stop-loss price set and the current price
  at or below it, in the order of the snapshot, and logs one warning for each. The two
  conditions are evaluated separately: the reasons of a warning are the loss reason,
  when the percentage condition holds, followed by the price reason, when the price
  condition holds, so both are reported when both hold. The percentage bound is
  inclusive: with \<^verbatim>\<open>stop_loss_percentage = 20\<close> and no stop-loss price, a position at
  \<open>-20.0\<close> is reported and one at \<open>-19.9\<close> is not.
\<close>

theorem trigger_rule:
  "fst (check_stop_loss_triggers cfg positions) =
     filter (\<lambda>pos. pnl_percentage pos \<le> - stop_loss_percentage cfg \<or>
                   (\<exists>sp. stop_loss_price cfg = Some sp \<and> current_price pos \<le> sp))
       (fst (filter_monitored_positions cfg positions))
   \<and> snd (check_stop_loss_triggers cfg positions) =
       snd (filter_monitored_positions cfg positions) @
       map (\<lambda>pos. StopLossTriggered pos (trigger_reasons cfg pos))
         (fst (check_stop_loss_triggers cfg positions))
   \<and> trigger_reasons cfg pos =
       (if pnl_percentage pos \<le> - stop_loss_percentage cfg then [Loss (pnl_percentage pos)] else []) @
       (case stop_loss_price cfg of
          None \<Rightarrow> []
        | Some sp \<Rightarrow> if current_price pos \<le> sp then [Price (current_price pos) sp] else [])
   \<and> fst (check_stop_loss_triggers
          (cfg\<lparr>selection_mode := ''all'', stop_loss_percentage := 20, stop_loss_price := None\<rparr>)
          [pos\<lparr>pnl_percentage := - 20.0\<rparr>, pos\<lparr>pnl_percentage := - 19.9\<rparr>]) =
       [pos\<lparr>pnl_percentage := - 20.0\<rparr>]"
proof (intro conjI)
  show "fst (check_stop_loss_triggers cfg positions) =
     filter (\<lambda>pos. pnl_percentage pos \<le> - stop_loss_percentage cfg \<or>
                   (\<exists>sp. stop_loss_price cfg = Some sp \<and> current_price pos \<le> sp))
       (fst (filter_monitored_positions cfg positions))"
    by (simp add: check_stop_loss_triggers_def check_monitored_filter triggered_rule
        split: prod.splits)
  show "snd (check_stop_loss_triggers cfg positions) =
       snd (filter_monitored_positions cfg positions) @
       map (\<lambda>pos. StopLossTriggered pos (trigger_reasons cfg pos))
         (fst (check_stop_loss_triggers cfg positions))"
    by (simp add: check_stop_loss_triggers_def check_monitored_filter split: prod.splits)
  show "trigger_reasons cfg pos =
       (if pnl_percentage pos \<le> - stop_loss_percentage cfg then [Loss (pnl_percentage pos)] else []) @
       (case stop_loss_price cfg of
          None \<Rightarrow> []
        | Some sp \<Rightarrow> if current_price pos \<le> sp then [Price (current_price pos) sp] else [])"
    by (simp add: trigger_reasons_def percentage_triggered_def price_triggered_def
        split: option.splits)
  show "fst (check_stop_loss_triggers
          (cfg\<lparr>selection_mode := ''all'', stop_loss_percentage := 20, stop_loss_price := None\<rparr>)
          [pos\<lparr>pnl_percentage := - 20.0\<rparr>, pos\<lparr>pnl_percentage := - 19.9\<rparr>]) =
       [pos\<lparr>pnl_percentage := - 20.0\<rparr>]"
    by (simp add: check_stop_loss_triggers_def filter_monitored_positions_def
        percentage_triggered_def price_triggered_def)
qed

text \<open>
  The rule at a position that meets both conditions, under the default percentage of 20
  and a stop-loss price of 0.45: position A, at \<open>-20\<close> percent and a price of 0.40, is
  reported with both reasons.
\<close>

theorem trigger_rule_both_reasons:
  "check_stop_loss_triggers
     (StopLossConfig\<lparr>selection_mode := ''all'', stop_loss_price := Some 0.45\<rparr>) [position_A] =
   ([position_A], [StopLossTriggered position_A [Loss (- 20), Price 0.40 0.45]])"
  using trigger_rule[of "StopLossConfig\<lparr>selection_mode := ''all'', stop_loss_price := Some 0.45\<rparr>"
      "[position_A]" position_A]
  by (simp add: prod_eq_iff filter_monitored_positions_def StopLossConfig_def position_A_def)

section \<open>Scenario A\<close>

lemma first_level_two_chunks:
  assumes size: "pos_size p = 100"
    and book: "get_order_book cl (token_id p) = Returns (Some b # levels)"
    and floor: "0.001 \<le> b"
    and creates: "\<forall>order. create_order cl order \<noteq> Raises"
    and accepts: "\<forall>history signed. \<exists>r. post_order cl history signed = Returns r \<and> post_success r"
  shows "\<exists>r1 r2. post_success r1 \<and> post_success r2 \<and>
     execute_market_sell cl p =
       Some (Inr \<lparr>success = True, orders_placed_count = Some 2, total_size_ordered = Some 100,
                  remaining_size_out = Some 0, order_details = Some [r1, r2],
                  error = None, attempted_size = None\<rparr>,
             [(OrderArgs b 50 SELL (token_id p), Returns r1),
              (OrderArgs b 50 SELL (token_id p), Returns r2)])"
proof -
  let ?order = "OrderArgs b 50 SELL (token_id p)"
  from creates obtain signed where c: "create_order cl ?order = Returns signed"
    by (cases "create_order cl ?order") auto
  from accepts obtain r1 where p1: "post_order cl [] signed = Returns r1" and a1: "post_success r1"
    by blast
  from accepts obtain r2 where
    p2: "post_order cl [(?order, Returns r1)] signed = Returns r2" and a2: "post_success r2"
    by blast
  let ?s0 = "\<lparr>sell_price = b, remaining_size = 100, total_filled = 0,
              orders_placed = [], posted = []\<rparr>"
  let ?s1 = "\<lparr>sell_price = b, remaining_size = 50, total_filled = 50,
              orders_placed = [r1], posted = [(?order, Returns r1)]\<rparr>"
  let ?s2 = "\<lparr>sell_price = b, remaining_size = 0, total_filled = 100,
              orders_placed = [r1, r2],
              posted = [(?order, Returns r1), (?order, Returns r2)]\<rparr>"
  have chunk: "chunk_size p = 50" using size by (simp add: chunk_size_def)
  have init: "initial_state cl p = ?s0"
    using book size floor by (simp add: initial_state_def price_discovery_def max_def)
  have step1: "chunk_attempt cl p ?s0 = Inr ?s1"
    using c p1 a1 chunk by (simp add: chunk_attempt_def Let_def)
  have step2: "chunk_attempt cl p ?s1 = Inr ?s2"
    using c p2 a2 chunk by (simp add: chunk_attempt_def Let_def)
  have "chunk_loop cl p ?s2 = Some (Inr ?s2)"
    by (subst chunk_loop.simps) simp
  then have "chunk_loop cl p ?s1 = Some (Inr ?s2)"
    using step2 by (subst chunk_loop.simps) simp
  then have "chunk_loop cl p ?s0 = Some (Inr ?s2)"
    using step1 by (subst chunk_loop.simps) simp
  then have "execute_market_sell cl p =
       Some (Inr \<lparr>success = True, orders_placed_count = Some 2, total_size_ordered = Some 100,
                  remaining_size_out = Some 0, order_details = Some [r1, r2],
                  error = None, attempted_size = None\<rparr>,
             [(?order, Returns r1), (?order, Returns r2)])"
    using init size by (simp add: execute_market_sell_def final_sweep_def summary_def)
  with a1 a2 show ?thesis by blast
qed

text \<open>
  C9. The method prices the orders at the first level the book lists,
  \<^verbatim>\<open>bids[0]\<close>, which its comment calls the best bid, the highest price someone is
  willing to pay. Where that level is 0.38 and the venue accepts everything, a position
  of 100 is sold in two orders of 50 at 0.38 (lemma \<open>first_level_two_chunks\<close> at
  \<open>b = 0.38\<close>). On the book that lists 0.30 before 0.38 the best bid is 0.38 as
  well, and the two orders of 50 for position A go out at 0.30.
\<close>

theorem first_level_is_not_best_bid:
  "get_order_book ascending_client (token_id position_A) = Returns [Some 0.30, Some 0.38]
   \<and> Max {0.30, 0.38} = (0.38::real)
   \<and> pos_size position_A = 100 \<and> current_price position_A = 0.40
   \<and> execute_market_sell ascending_client position_A =
       Some (Inr \<lparr>success = True, orders_placed_count = Some 2, total_size_ordered = Some 100,
                  remaining_size_out = Some 0,
                  order_details = Some [accepted_reply, accepted_reply],
                  error = None, attempted_size = None\<rparr>,
             [(OrderArgs 0.30 50 SELL ''token-A'', Returns accepted_reply),
              (OrderArgs 0.30 50 SELL ''token-A'', Returns accepted_reply)])"
  by (simp add: execute_market_sell_def ascending_client_def accepted_reply_def position_A_def
      initial_state_def price_discovery_def chunk_loop.simps chunk_attempt_def chunk_size_def
      final_sweep_def summary_def)

section \<open>The retry loop\<close>

text \<open>
  C1. Position B (size 30, current price 0.40) on a venue with an empty book that
  refuses every order. The source keeps no count of refusals and has no cap on them:
  the loop ends only when the remaining size is at most 0.1, and a refused order leaves
  the remaining size as it is. So for every \<open>n\<close> the loop makes \<open>n\<close> passes and is
  still running, with 30 remaining, \<open>n\<close> orders posted and none accepted; the call
  never returns, and the final low-price order is never placed.
\<close>

theorem rejected_position_never_reaches_final_sweep:
  "execute_market_sell rejecting_client position_B = None
   \<and> (\<forall>n. \<exists>s. state_after rejecting_client position_B n
                  (initial_state rejecting_client position_B) = Some s
              \<and> remaining_size s = 30 \<and> orders_placed s = [] \<and> length (posted s) = n)"
proof
  have never: "\<forall>h so r. post_order rejecting_client h so = Returns r \<longrightarrow> \<not> post_success r"
    by (simp add: rejecting_client_def rejected_reply_def)
  have creates: "\<forall>a. create_order rejecting_client a \<noteq> Raises"
    by (simp add: rejecting_client_def)
  have init: "remaining_size (initial_state rejecting_client position_B) = 30"
    "orders_placed (initial_state rejecting_client position_B) = []"
    "posted (initial_state rejecting_client position_B) = []"
    by (simp_all add: initial_state_def position_B_def)
  then have dust: "0.1 < remaining_size (initial_state rejecting_client position_B)" by simp
  from rejected_loop_diverges[OF never creates dust]
  show "execute_market_sell rejecting_client position_B = None"
    by (simp add: execute_market_sell_def)
  show "\<forall>n. \<exists>s. state_after rejecting_client position_B n
                  (initial_state rejecting_client position_B) = Some s
              \<and> remaining_size s = 30 \<and> orders_placed s = [] \<and> length (posted s) = n"
  proof
    fix n
    from rejected_loop_passes[OF never creates dust, of position_B n] init
    show "\<exists>s. state_after rejecting_client position_B n
                  (initial_state rejecting_client position_B) = Some s
              \<and> remaining_size s = 30 \<and> orders_placed s = [] \<and> length (posted s) = n"
      by simp
  qed
qed





section \<open>The price floor\<close>






section \<open>The final sweep\<close>

lemma accepting_loop:
  "chunk_loop accepting_client position_A (initial_state accepting_client position_A) =
     Some (Inr \<lparr>sell_price = 0.38, remaining_size = 0, total_filled = 100,
                orders_placed = [accepted_reply, accepted_reply],
                posted = [(OrderArgs 0.38 50 SELL ''token-A'', Returns accepted_reply),
                          (OrderArgs 0.38 50 SELL ''token-A'', Returns accepted_reply)]\<rparr>)"
  by (simp add: accepting_client_def accepted_reply_def position_A_def
      initial_state_def price_discovery_def chunk_loop.simps chunk_attempt_def chunk_size_def)

text \<open>
  C4. The final low-price order is never placed. The loop before the block ends only
  with at most 0.1 remaining, and the block asks for more than 0.1: whenever the loop
  ends, the block leaves the state as it is, and the method is the method without the
  block. Where orders keep being refused the loop does not end at all: for position
  C, 30 at a current price of 0.001 on the venue that refuses every order, the call
  never returns.
\<close>

theorem final_sweep_never_entered:
  "execute_market_sell cl p =
     (case chunk_loop cl p (initial_state cl p) of
        None \<Rightarrow> None
      | Some (Inl (e, vlog)) \<Rightarrow> Some (Inl e, vlog)
      | Some (Inr s) \<Rightarrow> Some (Inr (summary p s), posted s))
   \<and> (chunk_loop cl p (initial_state cl p) = Some (Inr s') \<longrightarrow>
        remaining_size s' \<le> 0.1 \<and> final_sweep cl p s' = s')
   \<and> execute_market_sell rejecting_client position_C = None"
proof (intro conjI impI)
  show "execute_market_sell cl p =
     (case chunk_loop cl p (initial_state cl p) of
        None \<Rightarrow> None
      | Some (Inl (e, vlog)) \<Rightarrow> Some (Inl e, vlog)
      | Some (Inr s) \<Rightarrow> Some (Inr (summary p s), posted s))"
    by (auto simp: execute_market_sell_def Let_def final_sweep_after_loop
        split: option.splits sum.splits prod.splits)
  show "execute_market_sell rejecting_client position_C = None"
    by (rule never_accepting_never_returns)
      (simp_all add: rejecting_client_def rejected_reply_def position_C_def)
next
  assume l: "chunk_loop cl p (initial_state cl p) = Some (Inr s')"
  show "remaining_size s' \<le> 0.1" by (rule chunk_loop_exit[OF l])
  show "final_sweep cl p s' = s'" by (rule final_sweep_after_loop[OF l])
qed

theorem final_sweep_never_entered_witness:
  "chunk_loop accepting_client position_A (initial_state accepting_client position_A) =
     Some (Inr \<lparr>sell_price = 0.38, remaining_size = 0, total_filled = 100,
                orders_placed = [accepted_reply, accepted_reply],
                posted = [(OrderArgs 0.38 50 SELL ''token-A'', Returns accepted_reply),
                          (OrderArgs 0.38 50 SELL ''token-A'', Returns accepted_reply)]\<rparr>)
   \<and> final_sweep accepting_client position_A
        \<lparr>sell_price = 0.38, remaining_size = 0, total_filled = 100,
         orders_placed = [accepted_reply, accepted_reply],
         posted = [(OrderArgs 0.38 50 SELL ''token-A'', Returns accepted_reply),
                   (OrderArgs 0.38 50 SELL ''token-A'', Returns accepted_reply)]\<rparr> =
       \<lparr>sell_price = 0.38, remaining_size = 0, total_filled = 100,
        orders_placed = [accepted_reply, accepted_reply],
        posted = [(OrderArgs 0.38 50 SELL ''token-A'', Returns accepted_reply),
                  (OrderArgs 0.38 50 SELL ''token-A'', Returns accepted_reply)]\<rparr>"
  using final_sweep_never_entered[of accepting_client position_A] accepting_loop
  by simp

section \<open>Empty selection\<close>

text \<open>
  C5. With mode \<^verbatim>\<open>"selected"\<close> and nothing selected the filter itself returns no
  position. \<^verbatim>\<open>start_monitoring\<close>, however, rewrites that configuration to mode
  \<^verbatim>\<open>"all"\<close> before its loop, so the loop monitors, and here triggers on, every
  position of the snapshot; the configuration arises when \<^verbatim>\<open>__init__\<close> reads an empty
  selection back from the file. \<^verbatim>\<open>select_positions_for_monitoring\<close> sets mode
  \<^verbatim>\<open>"all"\<close> as well when the selection made is empty.
\<close>

theorem empty_selection_falls_back_to_all:
  "fst (filter_monitored_positions (StopLossConfig\<lparr>selection_mode := ''selected''\<rparr>)
         [position_A, position_B]) = []
   \<and> config (PolymarketStopLossBot
        (StopLossConfig\<lparr>selection_mode := ''selected'', selected_positions := {''token-A''}\<rparr>)
        {} accepting_client) = StopLossConfig\<lparr>selection_mode := ''selected''\<rparr>
   \<and> start_monitoring_config (StopLossConfig\<lparr>selection_mode := ''selected''\<rparr>) =
       (StopLossConfig\<lparr>selection_mode := ''all''\<rparr>, [NoPositionsSelectedMonitorAll])
   \<and> fst (filter_monitored_positions
        (fst (start_monitoring_config (StopLossConfig\<lparr>selection_mode := ''selected''\<rparr>)))
        [position_A, position_B]) = [position_A, position_B]
   \<and> fst (check_stop_loss_triggers
        (fst (start_monitoring_config (StopLossConfig\<lparr>selection_mode := ''selected''\<rparr>)))
        [position_A, position_B]) = [position_A, position_B]
   \<and> selection_mode
        (select_positions_for_monitoring (StopLossConfig\<lparr>selection_mode := ''selected''\<rparr>) {}) =
       ''all''"
  by (simp add: filter_monitored_positions_def StopLossConfig_def start_monitoring_config_def
      check_stop_loss_triggers_def PolymarketStopLossBot_def select_positions_for_monitoring_def
      percentage_triggered_def price_triggered_def position_A_def position_B_def)

end
